theory Spec2Isabelle
  imports Complex_Main
begin

section \<open>Python values handled by the wrapper\<close>

text \<open>
  Weights are Python floats (or ints, which compare exactly with floats). The finite ones
  are read as reals; the three non-finite values are kept apart, since the comparisons of
  \<open>__setitem__\<close> and the bounds check of the constructor treat them differently.
\<close>

datatype pyfloat = Finite real | PosInf | NegInf | NaN

text \<open>Python's \<open>a <= b\<close> on floats: every comparison with \<open>nan\<close> is false.\<close>

fun fle :: "pyfloat \<Rightarrow> pyfloat \<Rightarrow> bool" where
  "fle NaN b = False"
| "fle a NaN = False"
| "fle NegInf b = True"
| "fle a PosInf = True"
| "fle (Finite a) (Finite b) = (a \<le> b)"
| "fle PosInf b = False"
| "fle a NegInf = False"

text \<open>Python's \<open>a < b\<close> on floats.\<close>

fun flt :: "pyfloat \<Rightarrow> pyfloat \<Rightarrow> bool" where
  "flt NaN b = False"
| "flt a NaN = False"
| "flt (Finite a) (Finite b) = (a < b)"
| "flt PosInf b = False"
| "flt a NegInf = False"
| "flt NegInf b = True"
| "flt a PosInf = True"

text \<open>
  The objects that reach the wrapper as elements: an integer, a tuple of integers, a
  string, and the class object \<open>int\<close> itself (the right-hand side of the identity test
  in \<open>__init__\<close>).
\<close>

datatype pykey = PyInt int | PyTuple "int list" | PyStr string | PyIntClass

datatype error =
    ValueError | TypeError | AttributeError | KeyError | StopIteration
  | KeyNotFoundError | DuplicateKeyError


section \<open>The compiled container behind the wrapper\<close>

text \<open>
  \<open>from _SamplableSetCR import *\<close> brings in \<open>IntSamplableSet\<close> and
  \<open>EdgeSamplableSet\<close>, the two instances of the C++ template.
\<close>

datatype cpp_class = IntSamplableSet | EdgeSamplableSet

text \<open>
  Modelled from the spec: the state of a container of the extension module
  \<open>_SamplableSetCR\<close>, which is not among the sources: its class, the configured weight
  bounds, the stored (key, weight) pairs and the state of its random source. The bucket
  layout is not observable through any operation below and is left out: the pairs are kept
  in one list with pairwise different keys.
\<close>

record core =
  cls :: cpp_class
  min_w :: real
  max_w :: real
  entries :: "(pykey \<times> real) list"
  rng :: nat

text \<open>
  Modelled from the spec: the key variant is fixed per container, and a key must match it
  or the operation fails. \<open>IntSamplableSet\<close> takes a scalar integer,
  \<open>EdgeSamplableSet\<close> a triple of integers.
\<close>

fun key_ok :: "cpp_class \<Rightarrow> pykey \<Rightarrow> bool" where
  "key_ok IntSamplableSet (PyInt i) = True"
| "key_ok EdgeSamplableSet (PyTuple xs) = (length xs = 3)"
| "key_ok c k = False"

text \<open>
  Modelled from the spec: the random source, a seedable uniform generator of reals in
  \<open>[0,1)\<close>. A linear congruential generator stands for the unknown one; the constructor
  without a seed starts it at a fixed state.
\<close>

definition rng_modulus :: nat where
  "rng_modulus = 2147483648"

text \<open>Modelled from the spec: the step of the random source from one state to the next.\<close>

definition rng_next :: "nat \<Rightarrow> nat" where
  "rng_next r = (1103515245 * r + 12345) mod rng_modulus"

text \<open>Modelled from the spec: the uniform real in \<open>[0,1)\<close> drawn at a state.\<close>

definition rng_uniform :: "nat \<Rightarrow> real" where
  "rng_uniform r = real (r mod rng_modulus) / real rng_modulus"

text \<open>
  Modelled from the spec: \<open>new(min_weight, max_weight, seed?)\<close> fails with a range error
  (a \<open>ValueError\<close> on the Python side) unless \<open>0 < min_weight < max_weight < \<infinity>\<close>.
\<close>

definition core_new :: "cpp_class \<Rightarrow> pyfloat \<Rightarrow> pyfloat \<Rightarrow> nat option \<Rightarrow> error + core" where
  "core_new c lo hi seed =
     (case (lo, hi) of
        (Finite a, Finite b) \<Rightarrow>
          if 0 < a \<and> a < b
          then Inr \<lparr>cls = c, min_w = a, max_w = b, entries = [],
                    rng = (case seed of None \<Rightarrow> 0 | Some s \<Rightarrow> s)\<rparr>
          else Inl ValueError
      | _ \<Rightarrow> Inl ValueError)"

text \<open>Modelled from the spec: \<open>size()\<close>, the number of stored keys.\<close>

definition core_size :: "core \<Rightarrow> int" where
  "core_size c = int (length (entries c))"

text \<open>Modelled from the spec: \<open>total_weight()\<close>, the sum of the stored weights.\<close>

definition core_total_weight :: "core \<Rightarrow> real" where
  "core_total_weight c = sum_list (map snd (entries c))"

text \<open>
  Modelled from the spec: \<open>count(key)\<close> returns the current weight if the key is present,
  else the absent sentinel (\<open>None\<close>).
\<close>

definition core_count :: "core \<Rightarrow> pykey \<Rightarrow> error + real option" where
  "core_count c k =
     (if key_ok (cls c) k then Inr (map_of (entries c) k) else Inl TypeError)"

text \<open>
  Modelled from the spec: the range check of the container, \<open>min_weight \<le> w \<le> max_weight\<close>
  for a finite weight \<open>w\<close>.
\<close>

definition weight_in_range :: "core \<Rightarrow> pyfloat \<Rightarrow> bool" where
  "weight_in_range c w =
     (case w of Finite v \<Rightarrow> min_w c \<le> v \<and> v \<le> max_w c | _ \<Rightarrow> False)"

text \<open>The real a finite float stands for; only weights that passed the range check are read.\<close>

fun the_weight :: "pyfloat \<Rightarrow> real" where
  "the_weight (Finite v) = v"
| "the_weight w = 0"

text \<open>
  Modelled from the spec: \<open>insert(key, weight)\<close> fails with a range error if the weight
  is outside the bounds and with a duplicate-key error if the key is present (the strict
  variant); a failed call changes nothing.
\<close>

definition core_insert :: "core \<Rightarrow> pykey \<Rightarrow> pyfloat \<Rightarrow> error + core" where
  "core_insert c k w =
     (if \<not> key_ok (cls c) k then Inl TypeError
      else if \<not> weight_in_range c w then Inl ValueError
      else if map_of (entries c) k \<noteq> None then Inl DuplicateKeyError
      else Inr (c\<lparr>entries := entries c @ [(k, the_weight w)]\<rparr>))"

text \<open>
  Modelled from the spec: \<open>set_weight(key, weight)\<close> fails with a range error if the
  weight is out of bounds and with a key-not-found error if the key is absent.
\<close>

definition core_set_weight :: "core \<Rightarrow> pykey \<Rightarrow> pyfloat \<Rightarrow> error + core" where
  "core_set_weight c k w =
     (if \<not> key_ok (cls c) k then Inl TypeError
      else if \<not> weight_in_range c w then Inl ValueError
      else if map_of (entries c) k = None then Inl KeyNotFoundError
      else Inr (c\<lparr>entries :=
             map (\<lambda>(k', w'). if k' = k then (k', the_weight w) else (k', w')) (entries c)\<rparr>))"

text \<open>Modelled from the spec: \<open>erase(key)\<close> fails with a key-not-found error if absent.\<close>

definition core_erase :: "core \<Rightarrow> pykey \<Rightarrow> error + core" where
  "core_erase c k =
     (if \<not> key_ok (cls c) k then Inl TypeError
      else if map_of (entries c) k = None then Inl KeyNotFoundError
      else Inr (c\<lparr>entries := filter (\<lambda>(k', w'). k' \<noteq> k) (entries c)\<rparr>))"

text \<open>
  Modelled from the spec: the weighted choice of \<open>sample()\<close>. It walks the cumulative
  weights up to the uniform draw scaled by the total weight, so under a uniform draw each
  pair is returned with probability \<open>weight / total_weight\<close>.
\<close>

fun select_entry :: "real \<Rightarrow> (pykey \<times> real) list \<Rightarrow> (pykey \<times> real) option" where
  "select_entry t [] = None"
| "select_entry t [e] = Some e"
| "select_entry t (e # e' # es) =
     (if t < snd e then Some e else select_entry (t - snd e) (e' # es))"

text \<open>
  Modelled from the spec: \<open>sample()\<close> returns a stored pair, or the empty sentinel if
  the container is empty; it changes no stored pair, only the state of the random source.
\<close>

definition core_sample :: "core \<Rightarrow> (pykey \<times> real) option \<times> core" where
  "core_sample c =
     (if entries c = [] then (None, c)
      else (select_entry (rng_uniform (rng c) * core_total_weight c) (entries c),
            c\<lparr>rng := rng_next (rng c)\<rparr>))"

text \<open>
  Modelled from the spec: the copy constructor, a deep clone of the stored pairs and the
  bounds, with the random source forked at its current state.
\<close>

definition core_copy :: "cpp_class \<Rightarrow> core \<Rightarrow> core" where
  "core_copy c src = src\<lparr>cls := c\<rparr>"


section \<open>The wrapper class \<open>SamplableSet\<close>\<close>

definition template_classes :: "string \<Rightarrow> cpp_class option" where
  "template_classes = map_of [(''int'', IntSamplableSet), (''edge'', EdgeSamplableSet)]"

text \<open>
  The instance attributes an object has once \<open>__init__\<close> has run: the compiled
  container, owned by the wrapper alone, and the two bounds. The six methods that the
  \<open>setattr\<close> loop copies from the container are the same for every instance and are
  listed in \<open>func_names\<close>.
\<close>

record sset =
  samplable_set :: core
  max_weight :: pyfloat
  min_weight :: pyfloat

definition func_names :: "string list" where
  "func_names = [''size'', ''total_weight'', ''count'', ''insert'', ''set_weight'', ''erase'']"

definition instance_attrs :: "string list" where
  "instance_attrs = ''_samplable_set'' # func_names @ [''max_weight'', ''min_weight'']"

definition class_attrs :: "string list" where
  "class_attrs =
     [''__init__'', ''__contains__'', ''__getitem__'', ''__setitem__'', ''__delitem__'',
      ''__str__'', ''__repr__'', ''__len__'', ''copy'', ''__deepcopy__'', ''__copy__'',
      ''sample'', ''sample_generator'']"

text \<open>
  Attribute lookup \<open>self.name\<close> on a wrapper object: the instance dictionary, then
  the class. The class defines no \<open>__getattr__\<close>, so any other name raises
  \<open>AttributeError\<close>.
\<close>

definition has_attr :: "string \<Rightarrow> bool" where
  "has_attr name = (name \<in> set instance_attrs \<or> name \<in> set class_attrs)"

text \<open>Python's truth value of what \<open>count\<close> returns: \<open>None\<close> and \<open>0.0\<close> are false.\<close>

fun truthy :: "real option \<Rightarrow> bool" where
  "truthy None = False"
| "truthy (Some w) = (w \<noteq> 0)"

definition contains :: "sset \<Rightarrow> pykey \<Rightarrow> error + bool" where
  "contains self element =
     (if has_attr ''count''
      then (case core_count (samplable_set self) element of
              Inl e \<Rightarrow> Inl e
            | Inr r \<Rightarrow> Inr (if truthy r then True else False))
      else Inl AttributeError)"

text \<open>
  The bound methods \<open>self.insert\<close>, \<open>self.set_weight\<close> and \<open>self.erase\<close>: they
  act on the container the wrapper owns; an exception leaves it as it was.
\<close>

definition on_core :: "sset \<Rightarrow> error + core \<Rightarrow> (error + unit) \<times> sset" where
  "on_core self r =
     (case r of Inl e \<Rightarrow> (Inl e, self) | Inr c \<Rightarrow> (Inr (), self\<lparr>samplable_set := c\<rparr>))"

definition self_insert :: "sset \<Rightarrow> pykey \<Rightarrow> pyfloat \<Rightarrow> (error + unit) \<times> sset" where
  "self_insert self element weight =
     (if has_attr ''insert''
      then on_core self (core_insert (samplable_set self) element weight)
      else (Inl AttributeError, self))"

definition self_set_weight :: "sset \<Rightarrow> pykey \<Rightarrow> pyfloat \<Rightarrow> (error + unit) \<times> sset" where
  "self_set_weight self element weight =
     (if has_attr ''set_weight''
      then on_core self (core_set_weight (samplable_set self) element weight)
      else (Inl AttributeError, self))"

definition self_erase :: "sset \<Rightarrow> pykey \<Rightarrow> (error + unit) \<times> sset" where
  "self_erase self element =
     (if has_attr ''erase''
      then on_core self (core_erase (samplable_set self) element)
      else (Inl AttributeError, self))"

text \<open>
  \<open>__getitem__\<close> calls \<open>self.get_weight\<close>. Were the name bound, the call would be
  the container's weight lookup.
\<close>

definition getitem :: "sset \<Rightarrow> pykey \<Rightarrow> (error + real option) \<times> sset" where
  "getitem self element =
     (if has_attr ''get_weight''
      then (core_count (samplable_set self) element, self)
      else (Inl AttributeError, self))"

definition setitem :: "sset \<Rightarrow> pykey \<Rightarrow> pyfloat \<Rightarrow> (error + unit) \<times> sset" where
  "setitem self element weight =
     (if fle (min_weight self) weight \<and> fle weight (max_weight self)
      then (case contains self element of
              Inl e \<Rightarrow> (Inl e, self)
            | Inr True \<Rightarrow> self_set_weight self element weight
            | Inr False \<Rightarrow> self_insert self element weight)
      else (Inl ValueError, self))"

definition delitem :: "sset \<Rightarrow> pykey \<Rightarrow> (error + unit) \<times> sset" where
  "delitem self element = self_erase self element"

definition len :: "sset \<Rightarrow> error + int" where
  "len self =
     (if has_attr ''size'' then Inr (core_size (samplable_set self)) else Inl AttributeError)"


subsection \<open>Sampling\<close>

text \<open>
  \<open>sample\<close> returns one result when \<open>n_samples == 1\<close> and a generator otherwise.
  The generator is lazy; \<open>Many xs\<close> stands for the results it yields when it is run to
  its end, with no other call on the object in between. \<open>range(n_samples)\<close> is empty
  for a negative count.
\<close>

datatype sample_result = One "(pykey \<times> real) option" | Many "(pykey \<times> real) option list"

fun sample_generator :: "sset \<Rightarrow> nat \<Rightarrow> (pykey \<times> real) option list \<times> sset" where
  "sample_generator self 0 = ([], self)"
| "sample_generator self (Suc n) =
     (case core_sample (samplable_set self) of
        (x, c) \<Rightarrow>
          (case sample_generator (self\<lparr>samplable_set := c\<rparr>) n of
             (xs, self') \<Rightarrow> (x # xs, self')))"

definition sample :: "sset \<Rightarrow> int \<Rightarrow> sample_result \<times> sset" where
  "sample self n_samples =
     (if n_samples = 1
      then (case core_sample (samplable_set self) of
              (x, c) \<Rightarrow> (One x, self\<lparr>samplable_set := c\<rparr>))
      else (case sample_generator self (nat n_samples) of
              (xs, self') \<Rightarrow> (Many xs, self')))"

text \<open>
  What a single draw may return from given contents: one of the stored pairs, or the
  empty sentinel exactly when nothing is stored.
\<close>

definition drawn_from :: "(pykey \<times> real) list \<Rightarrow> (pykey \<times> real) option \<Rightarrow> bool" where
  "drawn_from es x = (case x of None \<Rightarrow> es = [] | Some e \<Rightarrow> e \<in> set es)"

text \<open>
  A call \<open>s.sample(name=value, ...)\<close> with keyword arguments. The signature is
  \<open>sample(self, n_samples=1)\<close>: a keyword that names no parameter raises
  \<open>TypeError\<close> before the body runs, and a missing \<open>n_samples\<close> takes the default.
  A bool is an int in Python, \<open>True\<close> being \<open>1\<close>.
\<close>

datatype pyarg = ArgInt int | ArgBool bool

fun int_of_arg :: "pyarg \<Rightarrow> int" where
  "int_of_arg (ArgInt n) = n"
| "int_of_arg (ArgBool b) = (if b then 1 else 0)"

definition sample_params :: "string list" where
  "sample_params = [''n_samples'']"

definition call_sample ::
  "sset \<Rightarrow> (string \<times> pyarg) list \<Rightarrow> (error + sample_result) \<times> sset" where
  "call_sample self kwargs =
     (if list_ex (\<lambda>(name, v). name \<notin> set sample_params) kwargs then (Inl TypeError, self)
      else (case sample self
                   (case map_of kwargs ''n_samples'' of None \<Rightarrow> 1 | Some v \<Rightarrow> int_of_arg v) of
              (r, self') \<Rightarrow> (Inr r, self')))"

subsection \<open>Copying\<close>

text \<open>
  The objects of the program by class: a wrapper, or an instance of one of the two
  compiled classes. \<open>copy\<close> calls the class of the owned container on that container,
  that is, its copy constructor.
\<close>

datatype pyobj = Facade sset | Cpp core

datatype pyclass = SamplableSet | Template cpp_class

fun type_of :: "pyobj \<Rightarrow> pyclass" where
  "type_of (Facade self) = SamplableSet"
| "type_of (Cpp c) = Template (cls c)"

definition copy :: "sset \<Rightarrow> pyobj" where
  "copy self = Cpp (core_copy (cls (samplable_set self)) (samplable_set self))"

definition dunder_deepcopy :: "sset \<Rightarrow> 'memo \<Rightarrow> pyobj" where
  "dunder_deepcopy self memo_dict = copy self"

definition dunder_copy :: "sset \<Rightarrow> pyobj" where
  "dunder_copy self = copy self"

text \<open>
  Modelled from the spec: the names an instance of a compiled class answers to are the
  operations the specification gives the container; the binding code that would list
  them is not among the sources.
\<close>

definition cpp_attrs :: "string list" where
  "cpp_attrs =
     [''size'', ''total_weight'', ''count'', ''insert'', ''set_weight'', ''erase'',
      ''sample'', ''sample_destructive'', ''sample_many'', ''copy'']"

fun obj_has_attr :: "pyobj \<Rightarrow> string \<Rightarrow> bool" where
  "obj_has_attr (Facade self) name = has_attr name"
| "obj_has_attr (Cpp c) name = (name \<in> set cpp_attrs)"


text \<open>
  Aliasing. A compiled container is a mutable object: it lives in a heap, at an address,
  and whoever holds the address sees every change made through any other holder. A
  wrapper object holds the address of its container in \<open>_samplable_set\<close>, next to
  its two bounds, which no method assigns after \<open>__init__\<close>. The record \<open>sset\<close>
  used so far is the wrapper read together with the current state of the container it
  refers to (\<open>deref\<close>). An address the program holds is below the length of the heap.
\<close>

type_synonym heap = "core list"

record sset_ref =
  ref_samplable_set :: nat
  ref_max_weight :: pyfloat
  ref_min_weight :: pyfloat

definition deref :: "heap \<Rightarrow> sset_ref \<Rightarrow> sset" where
  "deref h w =
     \<lparr>samplable_set = h ! ref_samplable_set w, max_weight = ref_max_weight w,
      min_weight = ref_min_weight w\<rparr>"


text \<open>
  A method of the container, called on the compiled object at an address; a failed call
  changes nothing.
\<close>

definition container_call ::
  "heap \<Rightarrow> nat \<Rightarrow> (core \<Rightarrow> error + core) \<Rightarrow> (error + unit) \<times> heap" where
  "container_call h a f =
     (case f (h ! a) of Inl e \<Rightarrow> (Inl e, h) | Inr c \<Rightarrow> (Inr (), h[a := c]))"



subsection \<open>Construction\<close>

text \<open>
  \<open>elements_weights\<close> is a dict (its items in insertion order) or a pair of two
  sequences; \<open>None\<close>, and an empty dict, are false in \<open>if elements_weights:\<close>.
\<close>

datatype elements_weights =
    Dict "(pykey \<times> pyfloat) list"
  | Pair "pykey list" "pyfloat list"

fun ew_truthy :: "elements_weights option \<Rightarrow> bool" where
  "ew_truthy None = False"
| "ew_truthy (Some (Dict d)) = (d \<noteq> [])"
| "ew_truthy (Some (Pair es ws)) = True"

fun unpacking :: "elements_weights \<Rightarrow> pykey list \<times> pyfloat list" where
  "unpacking (Dict d) = (map fst d, map snd d)"
| "unpacking (Pair es ws) = (es, ws)"

definition next_iter :: "'a list \<Rightarrow> error + 'a" where
  "next_iter xs = (case xs of [] \<Rightarrow> Inl StopIteration | x # rest \<Rightarrow> Inr x)"

text \<open>\<open>'int' if first_element is int else 'edge'\<close>: an identity test against the class.\<close>

definition infer_cpp_type :: "pykey \<Rightarrow> string" where
  "infer_cpp_type first_element = (if first_element = PyIntClass then ''int'' else ''edge'')"

text \<open>
  The first block of \<open>__init__\<close>: the type the container will have and the assignments
  the last block will make (the first pair, then every pair of the \<open>zip\<close>).
\<close>

definition unpack ::
  "elements_weights option \<Rightarrow> string \<Rightarrow> error + (string \<times> (pykey \<times> pyfloat) list)" where
  "unpack elements_weights cpp_type =
     (case (if ew_truthy elements_weights then elements_weights else None) of
        None \<Rightarrow> Inr (cpp_type, [])
      | Some ew \<Rightarrow>
          (case unpacking ew of
             (elements, weights) \<Rightarrow>
               (case next_iter elements of
                  Inl e \<Rightarrow> Inl e
                | Inr first_element \<Rightarrow>
                    (case next_iter weights of
                       Inl e \<Rightarrow> Inl e
                     | Inr first_weight \<Rightarrow>
                         if length elements \<noteq> length weights then Inl ValueError
                         else Inr (infer_cpp_type first_element,
                                   (first_element, first_weight) # zip elements weights)))))"

fun setitems :: "sset \<Rightarrow> (pykey \<times> pyfloat) list \<Rightarrow> error + sset" where
  "setitems self [] = Inr self"
| "setitems self ((element, weight) # rest) =
     (case setitem self element weight of
        (Inl e, self') \<Rightarrow> Inl e
      | (Inr u, self') \<Rightarrow> setitems self' rest)"

text \<open>A constructor that raises yields no object.\<close>

definition init ::
  "pyfloat \<Rightarrow> pyfloat \<Rightarrow> elements_weights option \<Rightarrow> nat option \<Rightarrow> string \<Rightarrow> error + sset" where
  "init min_weight' max_weight' elements_weights seed cpp_type =
     (case unpack elements_weights cpp_type of
        Inl e \<Rightarrow> Inl e
      | Inr (cpp_type', initial) \<Rightarrow>
          (case template_classes cpp_type' of
             None \<Rightarrow> Inl KeyError
           | Some c \<Rightarrow>
               (case core_new c min_weight' max_weight' seed of
                  Inl e \<Rightarrow> Inl e
                | Inr core \<Rightarrow>
                    setitems \<lparr>samplable_set = core, max_weight = max_weight',
                              min_weight = min_weight'\<rparr> initial)))"


section \<open>Well-formed wrapper objects\<close>

text \<open>
  What \<open>__init__\<close> establishes and every method keeps: the bounds recorded on the
  wrapper are those of the container, they are positive and ordered, the stored keys are
  pairwise different and of the container's variant, and every stored weight is within
  the bounds.
\<close>

definition core_ok :: "core \<Rightarrow> bool" where
  "core_ok c =
     (0 < min_w c \<and> min_w c < max_w c \<and> distinct (map fst (entries c)) \<and>
      list_all (\<lambda>(k, w). key_ok (cls c) k \<and> min_w c \<le> w \<and> w \<le> max_w c) (entries c))"

definition facade_ok :: "sset \<Rightarrow> bool" where
  "facade_ok self =
     (core_ok (samplable_set self) \<and>
      min_weight self = Finite (min_w (samplable_set self)) \<and>
      max_weight self = Finite (max_w (samplable_set self)))"


text \<open>The stored weights as a Python dict would show them.\<close>

definition weights_of :: "sset \<Rightarrow> pykey \<Rightarrow> pyfloat option" where
  "weights_of self = map_option Finite \<circ> map_of (entries (samplable_set self))"


section \<open>Concrete objects\<close>

text \<open>
  \<open>SamplableSet(1, 10)\<close> after \<open>s[7] = 2.\<close>, and the empty
  \<open>SamplableSet(1, 10)\<close>.
\<close>

definition example_core :: core where
  "example_core =
     \<lparr>cls = IntSamplableSet, min_w = 1, max_w = 10, entries = [(PyInt 7, 2)], rng = 0\<rparr>"

definition example_set :: sset where
  "example_set = \<lparr>samplable_set = example_core, max_weight = Finite 10, min_weight = Finite 1\<rparr>"

definition empty_set :: sset where
  "empty_set =
     \<lparr>samplable_set = example_core\<lparr>entries := []\<rparr>, max_weight = Finite 10,
      min_weight = Finite 1\<rparr>"




definition example_dict :: "(pykey \<times> pyfloat) list" where
  "example_dict = [(PyTuple [1, 2, 3], Finite 2), (PyTuple [4, 5, 6], Finite 5)]"


text \<open>The wrapper that \<open>SamplableSet(1, 10, example_dict)\<close> constructs.\<close>

definition example_edge_set :: sset where
  "example_edge_set =
     \<lparr>samplable_set =
        \<lparr>cls = EdgeSamplableSet, min_w = 1, max_w = 10,
         entries = [(PyTuple [1, 2, 3], 2), (PyTuple [4, 5, 6], 5)], rng = 0\<rparr>,
      max_weight = Finite 10, min_weight = Finite 1\<rparr>"


section \<open>Dict-style assignment\<close>

lemma has_attr_bound:
  "has_attr ''count''" "has_attr ''insert''" "has_attr ''set_weight''"
  "has_attr ''erase''" "has_attr ''size''" "has_attr ''total_weight''"
  by (simp_all add: has_attr_def instance_attrs_def func_names_def)

lemma no_get_weight: "\<not> has_attr ''get_weight''"
  by (simp add: has_attr_def instance_attrs_def func_names_def class_attrs_def)

lemma fle_Finite_bounds:
  "fle (Finite a) w \<Longrightarrow> fle w (Finite b) \<Longrightarrow> \<exists>v. w = Finite v \<and> a \<le> v \<and> v \<le> b"
  by (cases w) simp_all

lemma map_of_set_weight:
  "map_of (map (\<lambda>(k', w'). if k' = k then (k', v) else (k', w')) xs) k' =
     (if k' = k then map_option (\<lambda>_. v) (map_of xs k) else map_of xs k')"
  by (induction xs) auto

lemma stored_weight_bounds:
  "core_ok c \<Longrightarrow> map_of (entries c) k = Some x \<Longrightarrow> min_w c \<le> x \<and> x \<le> max_w c \<and> 0 < x"
  by (auto simp: core_ok_def list_all_iff dest!: map_of_SomeD)

lemma contains_present:
  assumes "facade_ok self" "key_ok (cls (samplable_set self)) k"
  shows "contains self k = Inr (map_of (entries (samplable_set self)) k \<noteq> None)"
proof (cases "map_of (entries (samplable_set self)) k")
  case None
  with assms show ?thesis by (simp add: contains_def has_attr_bound core_count_def)
next
  case (Some x)
  with assms have "0 < x" using stored_weight_bounds[of "samplable_set self" k x]
    by (simp add: facade_ok_def)
  with Some assms show ?thesis by (simp add: contains_def has_attr_bound core_count_def)
qed


lemma core_ok_insert:
  assumes "core_ok c" "key_ok (cls c) k" "min_w c \<le> v" "v \<le> max_w c"
    "map_of (entries c) k = None"
  shows "core_ok (c\<lparr>entries := entries c @ [(k, v)]\<rparr>)"
  using assms by (auto simp: core_ok_def map_of_eq_None_iff)

lemma fst_set_weight:
  "fst \<circ> (\<lambda>(k', w'). if k' = k then (k', v) else (k', w')) = fst"
  by (auto simp: fun_eq_iff)

lemma core_ok_set_weight:
  assumes "core_ok c" "min_w c \<le> v" "v \<le> max_w c"
  shows "core_ok (c\<lparr>entries :=
            map (\<lambda>(k', w'). if k' = k then (k', v) else (k', w')) (entries c)\<rparr>)"
  using assms by (auto simp: core_ok_def list_all_iff fst_set_weight split: if_splits)

lemma setitem_step:
  assumes ok: "facade_ok self"
    and key: "key_ok (cls (samplable_set self)) key"
    and lo: "min_w (samplable_set self) \<le> v" and hi: "v \<le> max_w (samplable_set self)"
  shows "\<exists>c'. setitem self key (Finite v) = (Inr (), self\<lparr>samplable_set := c'\<rparr>) \<and>
           cls c' = cls (samplable_set self) \<and> min_w c' = min_w (samplable_set self) \<and>
           max_w c' = max_w (samplable_set self) \<and> rng c' = rng (samplable_set self) \<and>
           map_of (entries c') = (map_of (entries (samplable_set self)))(key \<mapsto> v) \<and>
           core_ok c'"
proof (cases "map_of (entries (samplable_set self)) key")
  case None
  let ?c = "samplable_set self"
  let ?c' = "?c\<lparr>entries := entries ?c @ [(key, v)]\<rparr>"
  have "setitem self key (Finite v) = (Inr (), self\<lparr>samplable_set := ?c'\<rparr>)"
    using ok key lo hi None
    by (simp add: setitem_def contains_present self_insert_def has_attr_bound on_core_def
        core_insert_def weight_in_range_def facade_ok_def)
  moreover have "map_of (entries ?c') = (map_of (entries ?c))(key \<mapsto> v)"
    using None by (auto simp: fun_eq_iff map_add_def split: option.splits)
  moreover have "core_ok ?c'"
    using ok key lo hi None by (simp add: core_ok_insert facade_ok_def)
  ultimately show ?thesis by (intro exI[of _ ?c']) simp
next
  case (Some x)
  let ?c = "samplable_set self"
  let ?c' = "?c\<lparr>entries :=
              map (\<lambda>(k', w'). if k' = key then (k', v) else (k', w')) (entries ?c)\<rparr>"
  have "setitem self key (Finite v) = (Inr (), self\<lparr>samplable_set := ?c'\<rparr>)"
    using ok key lo hi Some
    by (simp add: setitem_def contains_present self_set_weight_def has_attr_bound on_core_def
        core_set_weight_def weight_in_range_def facade_ok_def cong: if_cong)
  moreover have "map_of (entries ?c') = (map_of (entries ?c))(key \<mapsto> v)"
    using Some by (auto simp: fun_eq_iff map_of_set_weight)
  moreover have "core_ok ?c'"
    using ok lo hi by (simp add: core_ok_set_weight facade_ok_def)
  ultimately show ?thesis by (intro exI[of _ ?c']) simp
qed

text \<open>
  C1, amended. For every key of the container's variant and every weight \<open>w\<close> with
  \<open>min_weight <= w <= max_weight\<close>, the assignment \<open>s[key] = w\<close> is the call
  of \<open>set_weight\<close> when the key is present and the call of \<open>insert\<close> when it is
  absent; it raises nothing, and afterwards the key is present with weight \<open>w\<close>.
\<close>

theorem setitem_upsert:
  assumes ok: "facade_ok self"
    and key: "key_ok (cls (samplable_set self)) key"
    and lo: "fle (min_weight self) w" and hi: "fle w (max_weight self)"
  shows "(map_of (entries (samplable_set self)) key \<noteq> None \<longrightarrow>
            setitem self key w = self_set_weight self key w) \<and>
         (map_of (entries (samplable_set self)) key = None \<longrightarrow>
            setitem self key w = self_insert self key w) \<and>
         fst (setitem self key w) = Inr () \<and>
         (\<exists>v. w = Finite v \<and>
              core_count (samplable_set (snd (setitem self key w))) key = Inr (Some v)) \<and>
         contains (snd (setitem self key w)) key = Inr True"
proof -
  let ?c = "samplable_set self"
  from ok lo hi obtain v where w: "w = Finite v" and v: "min_w ?c \<le> v" "v \<le> max_w ?c"
    using fle_Finite_bounds[of "min_w ?c" w "max_w ?c"] by (auto simp: facade_ok_def)
  from setitem_step[OF ok key v] obtain c' where
    res: "setitem self key w = (Inr (), self\<lparr>samplable_set := c'\<rparr>)"
    and c': "cls c' = cls ?c" "min_w c' = min_w ?c" "max_w c' = max_w ?c"
      "map_of (entries c') = (map_of (entries ?c))(key \<mapsto> v)" "core_ok c'"
    unfolding w by blast
  have ok': "facade_ok (self\<lparr>samplable_set := c'\<rparr>)"
    using ok c' by (simp add: facade_ok_def)
  have present: "setitem self key w = self_set_weight self key w"
    if "map_of (entries ?c) key \<noteq> None"
    using that lo hi by (simp add: setitem_def contains_present[OF ok key])
  have absent: "setitem self key w = self_insert self key w"
    if "map_of (entries ?c) key = None"
    using that lo hi by (simp add: setitem_def contains_present[OF ok key])
  have cnt: "core_count c' key = Inr (Some v)"
    using key c' by (simp add: core_count_def)
  have "contains (self\<lparr>samplable_set := c'\<rparr>) key = Inr True"
    using contains_present[OF ok', of key] key c' by simp
  with present absent cnt w res show ?thesis by simp
qed


theorem setitem_upsert_witness:
  "facade_ok example_set \<and> key_ok (cls (samplable_set example_set)) (PyInt 7) \<and>
   fle (min_weight example_set) (Finite 3) \<and> fle (Finite 3) (max_weight example_set) \<and>
   map_of (entries (samplable_set example_set)) (PyInt 7) \<noteq> None \<and>
   setitem example_set (PyInt 7) (Finite 3) = self_set_weight example_set (PyInt 7) (Finite 3) \<and>
   fst (setitem example_set (PyInt 7) (Finite 3)) = Inr () \<and>
   core_count (samplable_set (snd (setitem example_set (PyInt 7) (Finite 3)))) (PyInt 7)
     = Inr (Some 3) \<and>
   contains (snd (setitem example_set (PyInt 7) (Finite 3))) (PyInt 7) = Inr True"
proof -
  have ok: "facade_ok example_set"
    by (simp add: facade_ok_def core_ok_def example_set_def example_core_def)
  have key: "key_ok (cls (samplable_set example_set)) (PyInt 7)"
    by (simp add: example_set_def example_core_def)
  have lo: "fle (min_weight example_set) (Finite 3)"
    and hi: "fle (Finite 3) (max_weight example_set)"
    by (simp_all add: example_set_def)
  have pres: "map_of (entries (samplable_set example_set)) (PyInt 7) \<noteq> None"
    by (simp add: example_set_def example_core_def)
  from setitem_upsert[OF ok key lo hi] pres ok key lo hi show ?thesis by blast
qed

text \<open>
  C1, as stated for every key, fails for a key that is not of the container's variant: on
  the empty \<open>SamplableSet(1, 10)\<close>, whose container takes integers, the assignment
  \<open>s['a'] = 2.\<close> has its weight within the bounds, yet the containment test is
  rejected by the container, the assignment raises, and the key is not present afterwards.
\<close>

theorem setitem_string_key_rejected:
  "fle (min_weight empty_set) (Finite 2) \<and> fle (Finite 2) (max_weight empty_set) \<and>
   setitem empty_set (PyStr ''a'') (Finite 2) = (Inl TypeError, empty_set) \<and>
   contains (snd (setitem empty_set (PyStr ''a'') (Finite 2))) (PyStr ''a'') \<noteq> Inr True \<and>
   map_of (entries (samplable_set (snd (setitem empty_set (PyStr ''a'') (Finite 2)))))
     (PyStr ''a'') = None"
  by (simp add: setitem_def contains_def has_attr_bound core_count_def empty_set_def
      example_core_def)

text \<open>
  C3. For every weight \<open>w\<close> outside \<open>[min_weight, max_weight]\<close>, the assignment
  \<open>s[key] = w\<close> raises \<open>ValueError\<close> and leaves the object, hence size, total weight
  and all stored pairs, exactly as before, whether or not the key is present.
\<close>

theorem setitem_out_of_range:
  assumes "\<not> (fle (min_weight self) w \<and> fle w (max_weight self))"
  shows "setitem self key w = (Inl ValueError, self)"
  using assms by (auto simp: setitem_def)

theorem setitem_out_of_range_witness:
  "\<not> (fle (min_weight example_set) (Finite 11) \<and> fle (Finite 11) (max_weight example_set)) \<and>
   setitem example_set (PyInt 7) (Finite 11) = (Inl ValueError, example_set) \<and>
   \<not> (fle (min_weight example_set) (Finite (1/2)) \<and> fle (Finite (1/2)) (max_weight example_set)) \<and>
   setitem example_set (PyInt 8) (Finite (1/2)) = (Inl ValueError, example_set)"
proof -
  have a: "\<not> (fle (min_weight example_set) (Finite 11) \<and> fle (Finite 11) (max_weight example_set))"
    by (simp add: example_set_def)
  have b: "\<not> (fle (min_weight example_set) (Finite (1/2)) \<and>
               fle (Finite (1/2)) (max_weight example_set))"
    by (simp add: example_set_def)
  from setitem_out_of_range[OF a, of "PyInt 7"] setitem_out_of_range[OF b, of "PyInt 8"] a b
  show ?thesis by simp
qed

section \<open>Indexed reads, type inference and the bounds check\<close>

lemma init_empty:
  "init (Finite 1) (Finite 10) None None ''int'' = Inr empty_set"
  by (simp add: init_def unpack_def template_classes_def core_new_def empty_set_def
      example_core_def)

lemma setitem_empty_set:
  "setitem empty_set (PyInt 7) (Finite 2) = (Inr (), example_set)"
  by (simp add: setitem_def contains_def has_attr_bound core_count_def empty_set_def
      example_core_def self_insert_def on_core_def core_insert_def weight_in_range_def
      example_set_def)

text \<open>
  C4. The claim is that \<open>s[key]\<close> returns the key's weight when it is present and the
  absent sentinel otherwise, and never raises. Evaluated on \<open>s = SamplableSet(1, 10)\<close>
  after \<open>s[7] = 2.\<close>: \<open>__getitem__\<close> looks up \<open>self.get_weight\<close>, a name
  that is neither copied onto the instance nor defined by the class, so both \<open>s[7]\<close>
  and \<open>s[8]\<close> raise \<open>AttributeError\<close>.
\<close>

theorem getitem_raises:
  "init (Finite 1) (Finite 10) None None ''int'' = Inr empty_set \<and>
   setitem empty_set (PyInt 7) (Finite 2) = (Inr (), example_set) \<and>
   getitem example_set (PyInt 7) = (Inl AttributeError, example_set) \<and>
   getitem example_set (PyInt 8) = (Inl AttributeError, example_set)"
  by (simp add: init_empty setitem_empty_set getitem_def no_get_weight)

text \<open>
  C5. The claim is that a first element that is a scalar integer selects the \<open>'int'\<close>
  variant. Evaluated on the dict \<open>{3: 33.3, 6: 66.6}\<close>: the test
  \<open>first_element is int\<close> compares the element with the class object, so the integer
  \<open>3\<close> selects \<open>'edge'\<close>, and the first assignment is rejected by the triple
  variant of the container.
\<close>

theorem infer_cpp_type_int_key:
  "infer_cpp_type (PyInt 3) = ''edge'' \<and>
   init (Finite 1) (Finite 100)
     (Some (Dict [(PyInt 3, Finite (333 / 10)), (PyInt 6, Finite (666 / 10))])) None ''int''
     = Inl TypeError"
  by (simp add: infer_cpp_type_def init_def unpack_def next_iter_def template_classes_def
      core_new_def setitem_def contains_def has_attr_bound core_count_def)

lemma flt_bounds:
  "(flt (Finite 0) lo \<and> flt lo hi \<and> flt hi PosInf) =
     (\<exists>a b. lo = Finite a \<and> hi = Finite b \<and> 0 < a \<and> a < b)"
  by (cases lo; cases hi) simp_all

text \<open>
  C6. Whenever construction reaches the instantiation of the container, it raises
  \<open>ValueError\<close> unless \<open>0 < min_weight < max_weight < inf\<close>; the error comes from
  the container's constructor, so no container exists, no attribute has been set and no
  assignment has run. With bounds in that order the container is created empty.
\<close>

theorem init_checks_bounds:
  assumes "unpack ew cpp_type = Inr (t, initial)" and "template_classes t = Some c"
  shows "(\<not> (flt (Finite 0) lo \<and> flt lo hi \<and> flt hi PosInf) \<longrightarrow>
            core_new c lo hi seed = Inl ValueError \<and>
            init lo hi ew seed cpp_type = Inl ValueError) \<and>
         (flt (Finite 0) lo \<and> flt lo hi \<and> flt hi PosInf \<longrightarrow>
            (\<exists>core. core_new c lo hi seed = Inr core \<and> entries core = []))"
proof (cases "flt (Finite 0) lo \<and> flt lo hi \<and> flt hi PosInf")
  case True
  then obtain a b where "lo = Finite a" "hi = Finite b" "0 < a" "a < b"
    unfolding flt_bounds by blast
  then have "\<exists>core. core_new c lo hi seed = Inr core \<and> entries core = []"
    by (simp add: core_new_def)
  with True show ?thesis by blast
next
  case False
  then have "core_new c lo hi seed = Inl ValueError"
    unfolding flt_bounds by (cases lo; cases hi) (auto simp: core_new_def)
  with assms False show ?thesis by (simp add: init_def)
qed

theorem init_checks_bounds_witness:
  "unpack None ''int'' = Inr (''int'', []) \<and> template_classes ''int'' = Some IntSamplableSet \<and>
   \<not> (flt (Finite 0) (Finite 0) \<and> flt (Finite 0) (Finite 100) \<and> flt (Finite 100) PosInf) \<and>
   init (Finite 0) (Finite 100) None None ''int'' = Inl ValueError \<and>
   \<not> (flt (Finite 0) (Finite 1) \<and> flt (Finite 1) PosInf \<and> flt PosInf PosInf) \<and>
   init (Finite 1) PosInf None None ''int'' = Inl ValueError \<and>
   \<not> (flt (Finite 0) (Finite 2) \<and> flt (Finite 2) (Finite 1) \<and> flt (Finite 1) PosInf) \<and>
   init (Finite 2) (Finite 1) None None ''int'' = Inl ValueError \<and>
   (flt (Finite 0) (Finite 1) \<and> flt (Finite 1) (Finite 10) \<and> flt (Finite 10) PosInf) \<and>
   core_new IntSamplableSet (Finite 1) (Finite 10) None = Inr (samplable_set empty_set)"
proof -
  have u: "unpack None ''int'' = Inr (''int'', [])" by (simp add: unpack_def)
  have t: "template_classes ''int'' = Some IntSamplableSet" by (simp add: template_classes_def)
  have n: "core_new IntSamplableSet (Finite 1) (Finite 10) None = Inr (samplable_set empty_set)"
    by (simp add: core_new_def empty_set_def example_core_def)
  from init_checks_bounds[OF u t, of "Finite 0" "Finite 100" None]
    init_checks_bounds[OF u t, of "Finite 1" PosInf None]
    init_checks_bounds[OF u t, of "Finite 2" "Finite 1" None] u t n
  show ?thesis by simp
qed

section \<open>Sampling and copying\<close>

lemma select_entry_mem:
  "es \<noteq> [] \<Longrightarrow> \<exists>e \<in> set es. select_entry t es = Some e"
  by (induction t es rule: select_entry.induct) auto

lemma core_sample_frame:
  "\<exists>x. core_sample c = (x, c\<lparr>rng := rng (snd (core_sample c))\<rparr>) \<and> drawn_from (entries c) x"
proof (cases "entries c = []")
  case True
  then show ?thesis by (simp add: core_sample_def drawn_from_def)
next
  case False
  from select_entry_mem[OF False] obtain e where
    "e \<in> set (entries c)"
    "select_entry (rng_uniform (rng c) * core_total_weight c) (entries c) = Some e"
    by blast
  with False show ?thesis by (simp add: core_sample_def drawn_from_def)
qed

lemma core_sample_cases:
  obtains x r where "core_sample c = (x, c\<lparr>rng := r\<rparr>)" "drawn_from (entries c) x"
  using core_sample_frame[of c] by blast

text \<open>
  C7. \<open>sample()\<close> with \<open>n_samples = 1\<close> returns one result without raising and
  leaves the object as it was except for the state of the random source: size, total
  weight and every stored pair are unchanged. The result is a stored pair, and the empty
  sentinel when the container is empty.
\<close>

theorem sample_one_frame:
  "\<exists>x r. sample self 1 = (One x, self\<lparr>samplable_set := (samplable_set self)\<lparr>rng := r\<rparr>\<rparr>) \<and>
     drawn_from (entries (samplable_set self)) x \<and>
     (entries (samplable_set self) = [] \<longrightarrow> x = None) \<and>
     core_size (samplable_set (snd (sample self 1))) = core_size (samplable_set self) \<and>
     core_total_weight (samplable_set (snd (sample self 1)))
       = core_total_weight (samplable_set self) \<and>
     entries (samplable_set (snd (sample self 1))) = entries (samplable_set self)"
proof -
  obtain x r where cs: "core_sample (samplable_set self) = (x, (samplable_set self)\<lparr>rng := r\<rparr>)"
    and d: "drawn_from (entries (samplable_set self)) x"
    by (rule core_sample_cases)
  have s: "sample self 1 = (One x, self\<lparr>samplable_set := (samplable_set self)\<lparr>rng := r\<rparr>\<rparr>)"
    by (simp add: sample_def cs)
  have "entries (samplable_set self) = [] \<longrightarrow> x = None"
    using d by (cases x) (auto simp: drawn_from_def)
  with s d show ?thesis
    by (auto simp: core_size_def core_total_weight_def)
qed

theorem sample_one_frame_witness:
  "entries (samplable_set empty_set) = [] \<and>
   fst (sample empty_set 1) = One None \<and>
   core_size (samplable_set (snd (sample empty_set 1))) = 0 \<and>
   core_total_weight (samplable_set (snd (sample empty_set 1))) = 0 \<and>
   fst (sample example_set 1) = One (Some (PyInt 7, 2)) \<and>
   entries (samplable_set (snd (sample example_set 1))) = [(PyInt 7, 2)]"
proof -
  have e: "entries (samplable_set empty_set) = []"
    by (simp add: empty_set_def)
  have z: "core_size (samplable_set empty_set) = 0" "core_total_weight (samplable_set empty_set) = 0"
    by (simp_all add: core_size_def core_total_weight_def e)
  have x: "entries (samplable_set example_set) = [(PyInt 7, 2)]"
    by (simp add: example_set_def example_core_def)
  have "fst (sample empty_set 1) = One None"
    using sample_one_frame[of empty_set] e by auto
  moreover have "core_size (samplable_set (snd (sample empty_set 1))) = 0"
    "core_total_weight (samplable_set (snd (sample empty_set 1))) = 0"
    using sample_one_frame[of empty_set] z by auto
  moreover have "fst (sample example_set 1) = One (Some (PyInt 7, 2))"
    using sample_one_frame[of example_set] x by (auto simp: drawn_from_def split: option.splits)
  moreover have "entries (samplable_set (snd (sample example_set 1))) = [(PyInt 7, 2)]"
    using sample_one_frame[of example_set] x by auto
  ultimately show ?thesis using e by simp
qed


lemma sample_generator_frame:
  "\<exists>xs r. sample_generator self n
            = (xs, self\<lparr>samplable_set := (samplable_set self)\<lparr>rng := r\<rparr>\<rparr>) \<and>
          length xs = n \<and> list_all (drawn_from (entries (samplable_set self))) xs"
proof (induction n arbitrary: self)
  case 0
  have "self = self\<lparr>samplable_set := (samplable_set self)\<lparr>rng := rng (samplable_set self)\<rparr>\<rparr>"
    by simp
  then have "sample_generator self 0
      = ([], self\<lparr>samplable_set := (samplable_set self)\<lparr>rng := rng (samplable_set self)\<rparr>\<rparr>)"
    by simp
  then show ?case by (intro exI[of _ "[]"] exI[of _ "rng (samplable_set self)"]) simp
next
  case (Suc n)
  obtain x r where cs: "core_sample (samplable_set self) = (x, (samplable_set self)\<lparr>rng := r\<rparr>)"
    and d: "drawn_from (entries (samplable_set self)) x"
    by (rule core_sample_cases)
  let ?s = "self\<lparr>samplable_set := (samplable_set self)\<lparr>rng := r\<rparr>\<rparr>"
  from Suc.IH[of ?s] obtain xs r' where
    g: "sample_generator ?s n = (xs, ?s\<lparr>samplable_set := (samplable_set ?s)\<lparr>rng := r'\<rparr>\<rparr>)"
    and l: "length xs = n" and a: "list_all (drawn_from (entries (samplable_set ?s))) xs"
    by blast
  have "sample_generator self (Suc n)
      = (x # xs, self\<lparr>samplable_set := (samplable_set self)\<lparr>rng := r'\<rparr>\<rparr>)"
    using cs g by simp
  moreover have "length (x # xs) = Suc n" using l by simp
  moreover have "list_all (drawn_from (entries (samplable_set self))) (x # xs)"
    using d a by simp
  ultimately show ?case by blast
qed

text \<open>
  C2. The claim is that the batch call takes a with/without-replacement flag, yields exactly
  \<open>n\<close> results, and without replacement fills up with empty sentinels once the
  container is exhausted. Evaluated on \<open>s = SamplableSet(1, 10)\<close> after
  \<open>s[7] = 2.\<close>: \<open>sample\<close> has no parameter for the flag, so
  \<open>s.sample(n_samples=5, replace=False)\<close> and \<open>s.sample(replace=False)\<close> raise
  \<open>TypeError\<close>; and the only batch there is, \<open>s.sample(n_samples=5)\<close>, draws the
  one stored pair five times and removes nothing, where a batch without replacement would
  give that pair once and four empty sentinels.
\<close>

theorem sample_has_no_replace_flag:
  "call_sample example_set [(''n_samples'', ArgInt 5), (''replace'', ArgBool False)]
     = (Inl TypeError, example_set) \<and>
   call_sample example_set [(''replace'', ArgBool False)] = (Inl TypeError, example_set) \<and>
   fst (call_sample example_set [(''n_samples'', ArgInt 5)])
     = Inr (Many [Some (PyInt 7, 2), Some (PyInt 7, 2), Some (PyInt 7, 2), Some (PyInt 7, 2),
                  Some (PyInt 7, 2)]) \<and>
   fst (call_sample example_set [(''n_samples'', ArgInt 5)])
     \<noteq> Inr (Many [Some (PyInt 7, 2), None, None, None, None]) \<and>
   entries (samplable_set (snd (call_sample example_set [(''n_samples'', ArgInt 5)])))
     = [(PyInt 7, 2)]"
proof -
  have bad: "call_sample example_set [(''n_samples'', ArgInt 5), (''replace'', ArgBool False)]
     = (Inl TypeError, example_set)"
    "call_sample example_set [(''replace'', ArgBool False)] = (Inl TypeError, example_set)"
    by (simp_all add: call_sample_def sample_params_def)
  have one: "core_sample (example_core\<lparr>rng := r\<rparr>)
      = (Some (PyInt 7, 2), example_core\<lparr>rng := rng_next r\<rparr>)" for r
    by (simp add: core_sample_def example_core_def)
  have step: "sample_generator (example_set\<lparr>samplable_set := example_core\<lparr>rng := r\<rparr>\<rparr>) (Suc n)
      = (case sample_generator
               (example_set\<lparr>samplable_set := example_core\<lparr>rng := rng_next r\<rparr>\<rparr>) n of
           (xs, self') \<Rightarrow> (Some (PyInt 7, 2) # xs, self'))" for r n
    by (simp add: one)
  have start: "example_set = example_set\<lparr>samplable_set := example_core\<lparr>rng := 0\<rparr>\<rparr>"
    by (simp add: example_set_def example_core_def)
  have five: "(5::nat) = Suc (Suc (Suc (Suc (Suc 0))))" by simp
  have gen: "sample_generator example_set 5
      = (replicate 5 (Some (PyInt 7, 2)),
         example_set\<lparr>samplable_set :=
           example_core\<lparr>rng := rng_next (rng_next (rng_next (rng_next (rng_next 0))))\<rparr>\<rparr>)"
    unfolding five by (subst start) (simp only: step sample_generator.simps(1) prod.case,
        simp add: numeral_eq_Suc)
  have ok: "call_sample example_set [(''n_samples'', ArgInt 5)]
      = (Inr (Many (replicate 5 (Some (PyInt 7, 2)))),
         example_set\<lparr>samplable_set :=
           example_core\<lparr>rng := rng_next (rng_next (rng_next (rng_next (rng_next 0))))\<rparr>\<rparr>)"
    by (simp add: call_sample_def sample_params_def sample_def gen)
  have rep5: "replicate 5 x = [x, x, x, x, x]" for x :: "(pykey \<times> real) option"
    by (simp add: numeral_eq_Suc)
  from bad ok show ?thesis
    by (simp add: rep5 example_core_def)
qed

text \<open>
  C10. What \<open>copy()\<close>, \<open>__copy__\<close> and \<open>__deepcopy__\<close> return is an instance
  of the compiled class of the owned container, not of \<open>SamplableSet\<close>: unlike the
  wrapper it answers to none of \<open>__getitem__\<close>, \<open>__setitem__\<close>,
  \<open>__delitem__\<close>, \<open>__contains__\<close>, \<open>__len__\<close>, \<open>min_weight\<close> and
  \<open>max_weight\<close>.
\<close>

theorem copy_is_template_instance:
  "type_of (copy self) = Template (cls (samplable_set self)) \<and>
   type_of (copy self) \<noteq> SamplableSet \<and>
   type_of (Facade self) = SamplableSet \<and>
   dunder_copy self = copy self \<and>
   dunder_deepcopy self memo_dict = copy self \<and>
   obj_has_attr (Facade self) ''__getitem__'' \<and> \<not> obj_has_attr (copy self) ''__getitem__'' \<and>
   obj_has_attr (Facade self) ''__setitem__'' \<and> \<not> obj_has_attr (copy self) ''__setitem__'' \<and>
   obj_has_attr (Facade self) ''__delitem__'' \<and> \<not> obj_has_attr (copy self) ''__delitem__'' \<and>
   obj_has_attr (Facade self) ''__contains__'' \<and> \<not> obj_has_attr (copy self) ''__contains__'' \<and>
   obj_has_attr (Facade self) ''__len__'' \<and> \<not> obj_has_attr (copy self) ''__len__'' \<and>
   obj_has_attr (Facade self) ''min_weight'' \<and> \<not> obj_has_attr (copy self) ''min_weight'' \<and>
   obj_has_attr (Facade self) ''max_weight'' \<and> \<not> obj_has_attr (copy self) ''max_weight''"
  by (simp add: copy_def core_copy_def dunder_copy_def dunder_deepcopy_def cpp_attrs_def
      has_attr_def instance_attrs_def func_names_def class_attrs_def)


text \<open>
  Sharing is visible on the heap: a method called on the compiled object at the very
  address a wrapper refers to changes what the wrapper shows. A \<open>copy\<close> that handed
  out the wrapper's own reference would therefore not be independent.
\<close>

lemma alias_sees_mutation:
  assumes "ref_samplable_set w < length h" and "f (h ! ref_samplable_set w) = Inr c"
  shows "deref (snd (container_call h (ref_samplable_set w) f)) w
           = (deref h w)\<lparr>samplable_set := c\<rparr>"
  using assms by (simp add: container_call_def deref_def)




section \<open>Construction from a dict\<close>

lemma core_new_ok:
  assumes "core_new c lo hi seed = Inr core"
  shows "facade_ok \<lparr>samplable_set = core, max_weight = hi, min_weight = lo\<rparr> \<and>
         entries core = [] \<and> cls core = c"
  using assms
  by (cases lo; cases hi) (auto simp: core_new_def facade_ok_def core_ok_def split: if_splits)

lemma setitem_success:
  assumes ok: "facade_ok self" and res: "setitem self k w = (Inr u, self')"
  shows "facade_ok self' \<and> weights_of self' = (weights_of self)(k \<mapsto> w) \<and>
         cls (samplable_set self') = cls (samplable_set self)"
proof -
  let ?c = "samplable_set self"
  have rng: "fle (min_weight self) w \<and> fle w (max_weight self)"
    using res by (auto simp: setitem_def split: if_splits)
  then obtain v where w: "w = Finite v" and v: "min_w ?c \<le> v" "v \<le> max_w ?c"
    using ok fle_Finite_bounds[of "min_w ?c" w "max_w ?c"] by (auto simp: facade_ok_def)
  have key: "key_ok (cls ?c) k"
  proof (rule ccontr)
    assume "\<not> key_ok (cls ?c) k"
    then have "setitem self k w = (Inl TypeError, self)"
      using rng by (simp add: setitem_def contains_def has_attr_bound core_count_def)
    with res show False by simp
  qed
  from setitem_step[OF ok key v] obtain c' where
    st: "setitem self k (Finite v) = (Inr (), self\<lparr>samplable_set := c'\<rparr>)"
    and c': "cls c' = cls ?c" "min_w c' = min_w ?c" "max_w c' = max_w ?c"
      "map_of (entries c') = (map_of (entries ?c))(k \<mapsto> v)" "core_ok c'"
    by blast
  from st res w have s': "self' = self\<lparr>samplable_set := c'\<rparr>" by simp
  have "facade_ok self'" using ok c' by (simp add: s' facade_ok_def)
  moreover have "weights_of self' = (weights_of self)(k \<mapsto> w)"
    using c' by (auto simp: s' w weights_of_def fun_eq_iff)
  ultimately show ?thesis using c' by (simp add: s')
qed

lemma setitems_success:
  assumes "facade_ok self" and "setitems self kws = Inr self'"
  shows "facade_ok self' \<and> weights_of self' = weights_of self ++ map_of (rev kws)"
  using assms
proof (induction kws arbitrary: self)
  case Nil
  then show ?case by simp
next
  case (Cons kw kws)
  obtain k w where kw: "kw = (k, w)" by (cases kw)
  from Cons.prems(2) obtain u s1 where
    one: "setitem self k w = (Inr u, s1)" and rest: "setitems s1 kws = Inr self'"
    by (auto simp: kw split: prod.splits sum.splits)
  from setitem_success[OF Cons.prems(1) one] have
    ok1: "facade_ok s1" and w1: "weights_of s1 = (weights_of self)(k \<mapsto> w)" by simp_all
  from Cons.IH[OF ok1 rest] have ok': "facade_ok self'"
    and w': "weights_of self' = weights_of s1 ++ map_of (rev kws)" by simp_all
  have "weights_of self ++ map_of (rev (kw # kws))
      = (weights_of self)(k \<mapsto> w) ++ map_of (rev kws)"
    by (auto simp: kw fun_eq_iff map_add_def split: option.splits)
  with ok' w' w1 show ?case by simp
qed

lemma setitems_succeeds:
  assumes "facade_ok self"
    and "list_all (\<lambda>(k, w). key_ok (cls (samplable_set self)) k \<and>
            fle (min_weight self) w \<and> fle w (max_weight self)) kws"
  shows "\<exists>self'. setitems self kws = Inr self'"
  using assms
proof (induction kws arbitrary: self)
  case Nil
  then show ?case by simp
next
  case (Cons kw kws)
  obtain k w where kw: "kw = (k, w)" by (cases kw)
  let ?c = "samplable_set self"
  from Cons.prems(2) have key: "key_ok (cls ?c) k"
    and lo: "fle (min_weight self) w" and hi: "fle w (max_weight self)"
    by (simp_all add: kw)
  from lo hi obtain v where w: "w = Finite v" and v: "min_w ?c \<le> v" "v \<le> max_w ?c"
    using Cons.prems(1) fle_Finite_bounds[of "min_w ?c" w "max_w ?c"]
    by (auto simp: facade_ok_def)
  from setitem_step[OF Cons.prems(1) key v] obtain c' where
    st: "setitem self k w = (Inr (), self\<lparr>samplable_set := c'\<rparr>)"
    and c': "cls c' = cls ?c"
    unfolding w by blast
  let ?s1 = "self\<lparr>samplable_set := c'\<rparr>"
  from setitem_success[OF Cons.prems(1) st] have ok1: "facade_ok ?s1" by simp
  have "list_all (\<lambda>(k, w). key_ok (cls (samplable_set ?s1)) k \<and>
            fle (min_weight ?s1) w \<and> fle w (max_weight ?s1)) kws"
    using Cons.prems(2) c' by simp
  from Cons.IH[OF ok1 this] obtain self' where "setitems ?s1 kws = Inr self'" by blast
  with st show ?case by (simp add: kw)
qed


lemma map_of_rev_distinct:
  "distinct (map fst xs) \<Longrightarrow> map_of (rev xs) = map_of xs"
proof (induction xs)
  case Nil
  then show ?case by simp
next
  case (Cons x xs)
  then have "map_of xs (fst x) = None"
    by (simp add: map_of_eq_None_iff)
  with Cons show ?case
    by (cases x) (auto simp: fun_eq_iff map_add_def split: option.splits)
qed

lemma length_entries_card:
  assumes "facade_ok self"
  shows "length (entries (samplable_set self)) = card (dom (weights_of self))"
proof -
  have d: "distinct (map fst (entries (samplable_set self)))"
    using assms by (simp add: facade_ok_def core_ok_def)
  have "dom (weights_of self) = dom (map_of (entries (samplable_set self)))"
    by (auto simp: weights_of_def dom_def)
  then have "dom (weights_of self) = set (map fst (entries (samplable_set self)))"
    by (simp add: dom_map_of_conv_image_fst)
  with distinct_card[OF d] show ?thesis by simp
qed

lemma unpack_dict:
  "unpack (Some (Dict ((k, w) # rest))) cpp_type
     = Inr (infer_cpp_type k, (k, w) # (k, w) # rest)"
  by (simp add: unpack_def next_iter_def zip_map_fst_snd)

lemma init_dict_weights:
  assumes dist: "distinct (map fst d)"
    and res: "init lo hi (Some (Dict d)) seed cpp_type = Inr self"
  shows "facade_ok self \<and> weights_of self = map_of d"
proof (cases d)
  case Nil
  from res obtain c core where "core_new c lo hi seed = Inr core"
    and s: "self = \<lparr>samplable_set = core, max_weight = hi, min_weight = lo\<rparr>"
    by (auto simp: Nil init_def unpack_def split: option.splits sum.splits)
  from core_new_ok[OF this(1)] show ?thesis
    by (simp add: s Nil weights_of_def)
next
  case (Cons kw rest)
  obtain k w where kw: "kw = (k, w)" by (cases kw)
  let ?fresh = "\<lambda>core. \<lparr>samplable_set = core, max_weight = hi, min_weight = lo\<rparr>"
  from res obtain c core where new: "core_new c lo hi seed = Inr core"
    and run: "setitems (?fresh core) ((k, w) # d) = Inr self"
    by (auto simp: Cons kw init_def unpack_dict split: option.splits sum.splits)
  from core_new_ok[OF new] have ok: "facade_ok (?fresh core)" and e: "entries core = []"
    by simp_all
  from setitems_success[OF ok run] have ok': "facade_ok self"
    and w': "weights_of self = weights_of (?fresh core) ++ map_of (rev ((k, w) # d))"
    by simp_all
  have "weights_of (?fresh core) = Map.empty"
    by (simp add: weights_of_def e fun_eq_iff)
  moreover have "map_of (rev ((k, w) # d)) = map_of d"
  proof -
    have "map_of (rev ((k, w) # d)) = [k \<mapsto> w] ++ map_of (rev d)"
      by simp
    also have "\<dots> = [k \<mapsto> w] ++ map_of d"
      by (simp add: map_of_rev_distinct[OF dist])
    also have "\<dots> = map_of d"
      by (auto simp: Cons kw fun_eq_iff map_add_def split: option.splits)
    finally show ?thesis .
  qed
  ultimately show ?thesis using ok' w' by simp
qed

text \<open>
  C9. Construction from a dict assigns the first item twice (once before the loop, once in
  it). Whenever the construction returns an object, its length is the number of keys of the
  dict and its stored weights are exactly the dict's. It does return one when the bounds
  are in order and every key is a triple with its weight within the bounds.
\<close>

theorem init_from_dict:
  assumes dist: "distinct (map fst d)"
  shows "(\<forall>k w rest. d = (k, w) # rest \<longrightarrow>
            unpack (Some (Dict d)) cpp_type
              = Inr (infer_cpp_type k, (k, w) # (k, w) # rest)) \<and>
         (\<forall>self. init lo hi (Some (Dict d)) seed cpp_type = Inr self \<longrightarrow>
            len self = Inr (int (length d)) \<and> weights_of self = map_of d) \<and>
         (flt (Finite 0) lo \<and> flt lo hi \<and> flt hi PosInf \<and> d \<noteq> [] \<and>
          list_all (\<lambda>(k, w). key_ok EdgeSamplableSet k \<and> fle lo w \<and> fle w hi) d \<longrightarrow>
            (\<exists>self. init lo hi (Some (Dict d)) seed cpp_type = Inr self))"
proof (intro conjI allI impI)
  fix k w rest assume "d = (k, w) # rest"
  then show "unpack (Some (Dict d)) cpp_type = Inr (infer_cpp_type k, (k, w) # (k, w) # rest)"
    by (simp add: unpack_dict)
next
  fix self assume res: "init lo hi (Some (Dict d)) seed cpp_type = Inr self"
  from init_dict_weights[OF dist res] show "weights_of self = map_of d" by simp
next
  fix self assume res: "init lo hi (Some (Dict d)) seed cpp_type = Inr self"
  from init_dict_weights[OF dist res] have ok: "facade_ok self"
    and w: "weights_of self = map_of d" by simp_all
  have "length (entries (samplable_set self)) = card (dom (map_of d))"
    using length_entries_card[OF ok] w by simp
  also have "\<dots> = card (set (map fst d))"
    by (simp add: dom_map_of_conv_image_fst)
  also have "\<dots> = length d"
    using distinct_card[OF dist] by simp
  finally show "len self = Inr (int (length d))"
    by (simp add: len_def has_attr_bound core_size_def)
next
  assume a: "flt (Finite 0) lo \<and> flt lo hi \<and> flt hi PosInf \<and> d \<noteq> [] \<and>
          list_all (\<lambda>(k, w). key_ok EdgeSamplableSet k \<and> fle lo w \<and> fle w hi) d"
  then obtain k w rest where d: "d = (k, w) # rest" by (cases d) auto
  from a have key: "key_ok EdgeSamplableSet k" by (simp add: d)
  then have t: "infer_cpp_type k = ''edge''"
    by (cases k) (simp_all add: infer_cpp_type_def)
  from a have "flt (Finite 0) lo \<and> flt lo hi \<and> flt hi PosInf" by simp
  then obtain x y where "lo = Finite x" "hi = Finite y" "0 < x" "x < y"
    unfolding flt_bounds by blast
  then obtain core where new: "core_new EdgeSamplableSet lo hi seed = Inr core"
    by (simp add: core_new_def)
  let ?fresh = "\<lparr>samplable_set = core, max_weight = hi, min_weight = lo\<rparr>"
  from core_new_ok[OF new] have ok: "facade_ok ?fresh" and c: "cls core = EdgeSamplableSet"
    by simp_all
  have "list_all (\<lambda>(k, w). key_ok (cls (samplable_set ?fresh)) k \<and>
            fle (min_weight ?fresh) w \<and> fle w (max_weight ?fresh)) ((k, w) # d)"
    using a by (simp add: c d)
  from setitems_succeeds[OF ok this] obtain self where
    "setitems ?fresh ((k, w) # d) = Inr self" by blast
  then have "init lo hi (Some (Dict d)) seed cpp_type = Inr self"
    by (simp add: init_def d unpack_dict t template_classes_def new)
  then show "\<exists>self. init lo hi (Some (Dict d)) seed cpp_type = Inr self" by blast
qed


theorem init_from_dict_witness:
  "distinct (map fst example_dict) \<and>
   unpack (Some (Dict example_dict)) ''int''
     = Inr (''edge'', (PyTuple [1, 2, 3], Finite 2) # example_dict) \<and>
   init (Finite 1) (Finite 10) (Some (Dict example_dict)) None ''int'' = Inr example_edge_set \<and>
   len example_edge_set = Inr 2 \<and>
   weights_of example_edge_set (PyTuple [1, 2, 3]) = Some (Finite 2) \<and>
   weights_of example_edge_set (PyTuple [4, 5, 6]) = Some (Finite 5)"
proof -
  have d: "distinct (map fst example_dict)"
    by (simp add: example_dict_def)
  have u: "unpack (Some (Dict example_dict)) ''int''
     = Inr (''edge'', (PyTuple [1, 2, 3], Finite 2) # example_dict)"
    by (simp add: example_dict_def unpack_def next_iter_def infer_cpp_type_def)
  have s1: "setitem \<lparr>samplable_set =
        \<lparr>cls = EdgeSamplableSet, min_w = 1, max_w = 10, entries = [], rng = 0\<rparr>,
      max_weight = Finite 10, min_weight = Finite 1\<rparr> (PyTuple [1, 2, 3]) (Finite 2)
    = (Inr (), \<lparr>samplable_set =
        \<lparr>cls = EdgeSamplableSet, min_w = 1, max_w = 10,
         entries = [(PyTuple [1, 2, 3], 2)], rng = 0\<rparr>,
      max_weight = Finite 10, min_weight = Finite 1\<rparr>)"
    by (simp add: setitem_def contains_def has_attr_bound core_count_def self_insert_def
        on_core_def core_insert_def weight_in_range_def)
  have s2: "setitem \<lparr>samplable_set =
        \<lparr>cls = EdgeSamplableSet, min_w = 1, max_w = 10,
         entries = [(PyTuple [1, 2, 3], 2)], rng = 0\<rparr>,
      max_weight = Finite 10, min_weight = Finite 1\<rparr> (PyTuple [1, 2, 3]) (Finite 2)
    = (Inr (), \<lparr>samplable_set =
        \<lparr>cls = EdgeSamplableSet, min_w = 1, max_w = 10,
         entries = [(PyTuple [1, 2, 3], 2)], rng = 0\<rparr>,
      max_weight = Finite 10, min_weight = Finite 1\<rparr>)"
    by (simp add: setitem_def contains_def has_attr_bound core_count_def self_set_weight_def
        on_core_def core_set_weight_def weight_in_range_def)
  have s3: "setitem \<lparr>samplable_set =
        \<lparr>cls = EdgeSamplableSet, min_w = 1, max_w = 10,
         entries = [(PyTuple [1, 2, 3], 2)], rng = 0\<rparr>,
      max_weight = Finite 10, min_weight = Finite 1\<rparr> (PyTuple [4, 5, 6]) (Finite 5)
    = (Inr (), example_edge_set)"
    by (simp add: setitem_def contains_def has_attr_bound core_count_def self_insert_def
        on_core_def core_insert_def weight_in_range_def example_edge_set_def)
  have i: "init (Finite 1) (Finite 10) (Some (Dict example_dict)) None ''int''
      = Inr example_edge_set"
    unfolding init_def u
    by (simp add: template_classes_def core_new_def example_dict_def s1 s2 s3)
  from init_from_dict[OF d, where lo = "Finite 1" and hi = "Finite 10" and seed = None
      and cpp_type = "''int''"] i
  have "len example_edge_set = Inr (int (length example_dict)) \<and>
        weights_of example_edge_set = map_of example_dict"
    by blast
  then have "len example_edge_set = Inr 2"
    "weights_of example_edge_set (PyTuple [1, 2, 3]) = Some (Finite 2)"
    "weights_of example_edge_set (PyTuple [4, 5, 6]) = Some (Finite 5)"
    by (simp_all add: example_dict_def)
  with d u i show ?thesis by simp
qed

end
